theory Spec2Isabelle
  imports Complex_Main
begin

section \<open>ROI baseline and performance fee service\<close>

text \<open>
  A shallow embedding of \<^verbatim>\<open>ROIBaselineService\<close> from
  \<^verbatim>\<open>src/sales_funnel_roi_service.py\<close>.

  Numbers. The service computes with Python numbers (\<^verbatim>\<open>int\<close> and binary64
  \<^verbatim>\<open>float\<close>). Here every number is an exact rational (\<^typ>\<open>rat\<close>): the
  comparisons, guards and formulas are those of the source, and the rounding error that
  a binary64 operation may add is not represented. The concrete inputs used below were
  chosen so that the branch taken in Python is the branch taken here.

  Dictionaries. The raw platform dictionaries (\<^verbatim>\<open>metrics\<close>,
  \<^verbatim>\<open>baseline_data\<close>) have platform-dependent keys and are maps from key to
  number, read with \<^verbatim>\<open>.get(key, default)\<close>. Dictionaries that the service
  itself builds with a fixed set of keys (the standardized metrics, one improvement entry,
  the performance targets, the parts of the fee breakdown) are records; a key that the
  source adds only on some paths is an \<^typ>\<open>'a option\<close> field.
\<close>

subsection \<open>Dictionaries and numbers\<close>

type_synonym raw_metrics = "string \<rightharpoonup> rat"

text \<open>\<^verbatim>\<open>d.get(key, default)\<close>\<close>

definition dget :: "('k \<rightharpoonup> 'v) \<Rightarrow> 'k \<Rightarrow> 'v \<Rightarrow> 'v" where
  "dget d key dflt = (case d key of None \<Rightarrow> dflt | Some v \<Rightarrow> v)"

text \<open>
  Python's \<^verbatim>\<open>round(x, ndigits)\<close> on a float rounds the exact value of \<open>x\<close> to
  the nearest multiple of \<open>10 ^ -ndigits\<close>, and a value exactly half way goes to the
  neighbour whose last digit is even.
\<close>

definition round_half_even :: "rat \<Rightarrow> int" where
  "round_half_even x =
     (let f = \<lfloor>x\<rfloor>; d = x - of_int f
      in if d < 1 / 2 then f
         else if 1 / 2 < d then f + 1
         else if even f then f else f + 1)"

definition py_round :: "rat \<Rightarrow> nat \<Rightarrow> rat" where
  "py_round x ndigits = of_int (round_half_even (x * 10 ^ ndigits)) / 10 ^ ndigits"

text \<open>
  Half-up rounding of a currency amount to \<open>ndigits\<close> decimals, as the specification
  words it (the \<^verbatim>\<open>ROUND_HALF_UP\<close> mode of Python's \<^verbatim>\<open>decimal\<close> module):
  to the nearest multiple, a value exactly half way going away from zero.
\<close>

definition round_half_up :: "rat \<Rightarrow> nat \<Rightarrow> rat" where
  "round_half_up x ndigits =
     (if 0 \<le> x then of_int \<lfloor>x * 10 ^ ndigits + 1 / 2\<rfloor> / 10 ^ ndigits
      else - (of_int \<lfloor>- x * 10 ^ ndigits + 1 / 2\<rfloor> / 10 ^ ndigits))"

subsection \<open>The service's constants\<close>

text \<open>\<^verbatim>\<open>self.performance_fee_rates\<close> and \<^verbatim>\<open>self.minimum_improvement_threshold\<close>\<close>

definition performance_fee_rates :: "string \<rightharpoonup> rat" where
  "performance_fee_rates =
     [''starter'' \<mapsto> 0.05, ''professional'' \<mapsto> 0.07, ''enterprise'' \<mapsto> 0.10]"

definition minimum_improvement_threshold :: rat where
  "minimum_improvement_threshold = 0.05"

subsection \<open>Standardized metrics\<close>

record standardized_metrics =
  total_revenue :: rat
  total_transactions :: rat
  conversion_rate :: rat
  average_order_value :: rat
  total_leads :: rat
  cost_per_lead :: rat
  customer_acquisition_cost :: rat
  lifetime_value :: rat
  roi_percentage :: rat
  operational_costs :: rat

text \<open>\<^verbatim>\<open>_estimate_cac(revenue, customers)\<close>\<close>

definition estimate_cac :: "rat \<Rightarrow> rat \<Rightarrow> rat" where
  "estimate_cac revenue customers =
     (if customers = 0 then 0.0
      else (revenue * 0.20) / customers)"

text \<open>\<^verbatim>\<open>_estimate_cost_per_lead(leads)\<close>\<close>

definition estimate_cost_per_lead :: "rat \<Rightarrow> rat" where
  "estimate_cost_per_lead leads =
     (if leads = 0 then 0.0
      else min 25.0 (1000.0 / leads))"

text \<open>The dictionary literal that \<^verbatim>\<open>_standardize_baseline_metrics\<close> starts from.\<close>

definition standardized_init :: standardized_metrics where
  "standardized_init =
     \<lparr> total_revenue = 0.0,
       total_transactions = 0,
       conversion_rate = 0.0,
       average_order_value = 0.0,
       total_leads = 0,
       cost_per_lead = 0.0,
       customer_acquisition_cost = 0.0,
       lifetime_value = 0.0,
       roi_percentage = 0.0,
       operational_costs = 0.0 \<rparr>"

text \<open>
  The three \<^verbatim>\<open>standardized.update({...})\<close> branches, one per recognised platform;
  any other platform leaves the dictionary as initialised.
\<close>

definition apply_platform_mapping ::
  "string \<Rightarrow> raw_metrics \<Rightarrow> raw_metrics \<Rightarrow> standardized_metrics \<Rightarrow> standardized_metrics" where
  "apply_platform_mapping platform metrics baseline_data standardized =
     (if platform = ''shopify'' then
        standardized
          \<lparr> total_revenue := dget metrics ''total_revenue'' 0,
            total_transactions := dget metrics ''total_orders'' 0,
            conversion_rate := dget baseline_data ''conversion_rate'' 0,
            average_order_value := dget metrics ''average_order_value'' 0,
            total_leads := dget metrics ''total_orders'' 0 + dget metrics ''abandoned_checkouts'' 0,
            customer_acquisition_cost :=
              estimate_cac (dget metrics ''total_revenue'' 0) (dget metrics ''total_orders'' 0),
            operational_costs := dget metrics ''total_revenue'' 0 * 0.3 \<rparr>
      else if platform = ''hubspot'' then
        standardized
          \<lparr> total_revenue := dget metrics ''total_revenue'' 0,
            total_transactions := dget metrics ''closed_won_deals'' 0,
            conversion_rate := dget baseline_data ''deal_close_rate'' 0,
            average_order_value := dget metrics ''average_deal_value'' 0,
            total_leads := dget metrics ''total_contacts'' 0,
            cost_per_lead := estimate_cost_per_lead (dget metrics ''total_contacts'' 0),
            customer_acquisition_cost :=
              estimate_cac (dget metrics ''total_revenue'' 0) (dget metrics ''closed_won_deals'' 0) \<rparr>
      else if platform = ''google_analytics'' then
        (let revenue = dget metrics ''total_revenue'' 0;
             conversions = dget metrics ''total_conversions'' 0;
             sessions = dget metrics ''total_sessions'' 0
         in standardized
              \<lparr> total_revenue := revenue,
                total_transactions := conversions,
                conversion_rate := dget baseline_data ''conversion_rate'' 0,
                average_order_value := revenue / max 1 conversions,
                total_leads := sessions,
                cost_per_lead := estimate_cost_per_lead sessions,
                customer_acquisition_cost := estimate_cac revenue conversions \<rparr>)
      else standardized)"

text \<open>\<^verbatim>\<open>_standardize_baseline_metrics(platform, metrics, baseline_data)\<close>\<close>

definition standardize_baseline_metrics ::
  "string \<Rightarrow> raw_metrics \<Rightarrow> raw_metrics \<Rightarrow> standardized_metrics" where
  "standardize_baseline_metrics platform metrics baseline_data =
     (let standardized = apply_platform_mapping platform metrics baseline_data standardized_init;
          standardized =
            (if operational_costs standardized > 0 then
               standardized
                 \<lparr> roi_percentage :=
                     ((total_revenue standardized - operational_costs standardized)
                        / operational_costs standardized) * 100 \<rparr>
             else standardized);
          standardized =
            (if total_transactions standardized > 0 then
               standardized \<lparr> lifetime_value := average_order_value standardized * 2.5 \<rparr>
             else standardized)
      in standardized)"

subsection \<open>Performance targets\<close>

record tiers =
  tier_1 :: rat
  tier_2 :: rat
  tier_3 :: rat
  tier_baseline :: rat

record performance_targets =
  revenue_targets :: tiers
  conversion_rate_targets :: tiers
  average_order_value_targets :: tiers
  roi_percentage_targets :: tiers

text \<open>\<^verbatim>\<open>_calculate_performance_targets(baseline)\<close>\<close>

definition calculate_performance_targets :: "standardized_metrics \<Rightarrow> performance_targets" where
  "calculate_performance_targets bm =
     (let base_revenue = total_revenue bm;
          base_conversion = conversion_rate bm;
          base_aov = average_order_value bm;
          base_roi = roi_percentage bm
      in \<lparr> revenue_targets =
             \<lparr> tier_1 = base_revenue * 1.10, tier_2 = base_revenue * 1.25,
               tier_3 = base_revenue * 1.50, tier_baseline = base_revenue \<rparr>,
           conversion_rate_targets =
             \<lparr> tier_1 = base_conversion * 1.15, tier_2 = base_conversion * 1.30,
               tier_3 = base_conversion * 1.50, tier_baseline = base_conversion \<rparr>,
           average_order_value_targets =
             \<lparr> tier_1 = base_aov * 1.10, tier_2 = base_aov * 1.20,
               tier_3 = base_aov * 1.35, tier_baseline = base_aov \<rparr>,
           roi_percentage_targets =
             \<lparr> tier_1 = base_roi + 15, tier_2 = base_roi + 30,
               tier_3 = base_roi + 50, tier_baseline = base_roi \<rparr> \<rparr>)"

subsection \<open>The improvement comparator\<close>

record improvement =
  baseline :: rat
  current :: rat
  absolute_change :: rat
  percentage :: rat
  improved :: bool

type_synonym improvements = "string \<rightharpoonup> improvement"

definition key_metrics :: "string list" where
  "key_metrics =
     [''total_revenue'', ''conversion_rate'', ''average_order_value'', ''roi_percentage'']"

text \<open>\<^verbatim>\<open>.get(metric, default)\<close> on a standardized metrics dictionary\<close>

definition metric_get :: "standardized_metrics \<Rightarrow> string \<Rightarrow> rat \<Rightarrow> rat" where
  "metric_get m key dflt =
     (if key = ''total_revenue'' then total_revenue m
      else if key = ''total_transactions'' then total_transactions m
      else if key = ''conversion_rate'' then conversion_rate m
      else if key = ''average_order_value'' then average_order_value m
      else if key = ''total_leads'' then total_leads m
      else if key = ''cost_per_lead'' then cost_per_lead m
      else if key = ''customer_acquisition_cost'' then customer_acquisition_cost m
      else if key = ''lifetime_value'' then lifetime_value m
      else if key = ''roi_percentage'' then roi_percentage m
      else if key = ''operational_costs'' then operational_costs m
      else dflt)"

text \<open>The body of the loop of \<^verbatim>\<open>_calculate_improvements\<close>, for one metric.\<close>

definition improvement_entry :: "rat \<Rightarrow> rat \<Rightarrow> improvement" where
  "improvement_entry baseline_value current_value =
     (if baseline_value > 0 then
        (let change = current_value - baseline_value;
             percentage_change = (change / baseline_value) * 100
         in \<lparr> baseline = baseline_value,
              current = current_value,
              absolute_change = change,
              percentage = percentage_change,
              improved = (percentage_change > minimum_improvement_threshold * 100) \<rparr>)
      else
        \<lparr> baseline = baseline_value,
          current = current_value,
          absolute_change = current_value,
          percentage = 0,
          improved = False \<rparr>)"

fun improvements_loop ::
  "string list \<Rightarrow> standardized_metrics \<Rightarrow> standardized_metrics \<Rightarrow> improvements \<Rightarrow> improvements" where
  "improvements_loop [] bm cm imps = imps"
| "improvements_loop (metric # rest) bm cm imps =
     improvements_loop rest bm cm
       (imps(metric \<mapsto> improvement_entry (metric_get bm metric 0) (metric_get cm metric 0)))"

text \<open>\<^verbatim>\<open>_calculate_improvements(baseline, current)\<close>\<close>

definition calculate_improvements ::
  "standardized_metrics \<Rightarrow> standardized_metrics \<Rightarrow> improvements" where
  "calculate_improvements bm cm = improvements_loop key_metrics bm cm Map.empty"

subsection \<open>The tiered fee calculator\<close>

record revenue_fee_part =
  incremental_revenue :: rat
  rf_fee_rate :: rat
  fee_amount :: rat
  rf_improvement_percentage :: rat

record conversion_bonus_part =
  cb_improvement_percentage :: rat
  cb_bonus_rate :: rat
  cb_bonus_amount :: rat
  applied_to_revenue :: rat

record aov_bonus_part =
  ab_improvement_percentage :: rat
  ab_bonus_rate :: rat
  ab_bonus_amount :: rat

record fee_cap_part =
  calculated_fees :: rat
  capped_fees :: rat
  cap_percentage :: rat

record fee_breakdown =
  revenue_fee :: "revenue_fee_part option"
  conversion_bonus :: "conversion_bonus_part option"
  aov_bonus :: "aov_bonus_part option"
  fee_cap_applied :: "fee_cap_part option"

record fee_calculation =
  total_fees :: rat
  breakdown :: fee_breakdown
  fee_qualifying :: bool

text \<open>
  \<^verbatim>\<open>improvements.get(metric, {})\<close> is an \<^typ>\<open>improvement option\<close>, \<open>None\<close> for
  the empty dictionary; the three reads \<^verbatim>\<open>.get('improved', False)\<close>,
  \<^verbatim>\<open>.get('percentage', 0)\<close> and \<^verbatim>\<open>.get('absolute_change', 0)\<close> on it:
\<close>

definition entry_improved :: "improvement option \<Rightarrow> bool" where
  "entry_improved e = (case e of None \<Rightarrow> False | Some i \<Rightarrow> improved i)"

definition entry_percentage :: "improvement option \<Rightarrow> rat" where
  "entry_percentage e = (case e of None \<Rightarrow> 0 | Some i \<Rightarrow> percentage i)"

definition entry_absolute_change :: "improvement option \<Rightarrow> rat" where
  "entry_absolute_change e = (case e of None \<Rightarrow> 0 | Some i \<Rightarrow> absolute_change i)"

definition breakdown_empty :: fee_breakdown where
  "breakdown_empty =
     \<lparr> revenue_fee = None, conversion_bonus = None, aov_bonus = None, fee_cap_applied = None \<rparr>"

text \<open>
  \<^verbatim>\<open>_calculate_tiered_fees\<close> threads two local variables, the breakdown
  dictionary and the running total, through four blocks. Each block is a function on
  that pair.
\<close>

fun revenue_fee_step ::
  "improvements \<Rightarrow> rat \<Rightarrow> fee_breakdown \<times> rat \<Rightarrow> fee_breakdown \<times> rat" where
  "revenue_fee_step imps fee_rate (bd, fees) =
     (let revenue_improvement = imps ''total_revenue''
      in if entry_improved revenue_improvement then
           (let incremental = max 0 (entry_absolute_change revenue_improvement);
                fee = incremental * fee_rate
            in (bd \<lparr> revenue_fee :=
                       Some \<lparr> incremental_revenue = incremental,
                              rf_fee_rate = fee_rate,
                              fee_amount = fee,
                              rf_improvement_percentage = entry_percentage revenue_improvement \<rparr> \<rparr>,
                fees + fee))
         else (bd, fees))"

fun conversion_bonus_step ::
  "improvements \<Rightarrow> standardized_metrics \<Rightarrow> fee_breakdown \<times> rat \<Rightarrow> fee_breakdown \<times> rat" where
  "conversion_bonus_step imps cm (bd, fees) =
     (let conversion_improvement = imps ''conversion_rate''
      in if entry_improved conversion_improvement \<and> entry_percentage conversion_improvement > 15 then
           (let current_revenue = total_revenue cm;
                bonus_rate = min 0.02 ((entry_percentage conversion_improvement - 15) * 0.001);
                bonus = current_revenue * bonus_rate
            in (bd \<lparr> conversion_bonus :=
                       Some \<lparr> cb_improvement_percentage = entry_percentage conversion_improvement,
                              cb_bonus_rate = bonus_rate,
                              cb_bonus_amount = bonus,
                              applied_to_revenue = current_revenue \<rparr> \<rparr>,
                fees + bonus))
         else (bd, fees))"

fun aov_bonus_step ::
  "improvements \<Rightarrow> standardized_metrics \<Rightarrow> fee_breakdown \<times> rat \<Rightarrow> fee_breakdown \<times> rat" where
  "aov_bonus_step imps cm (bd, fees) =
     (let aov_improvement = imps ''average_order_value''
      in if entry_improved aov_improvement \<and> entry_percentage aov_improvement > 10 then
           (let bonus_rate = min 0.01 ((entry_percentage aov_improvement - 10) * 0.0005);
                bonus = total_revenue cm * bonus_rate
            in (bd \<lparr> aov_bonus :=
                       Some \<lparr> ab_improvement_percentage = entry_percentage aov_improvement,
                              ab_bonus_rate = bonus_rate,
                              ab_bonus_amount = bonus \<rparr> \<rparr>,
                fees + bonus))
         else (bd, fees))"

fun fee_cap_step :: "standardized_metrics \<Rightarrow> fee_breakdown \<times> rat \<Rightarrow> fee_breakdown \<times> rat" where
  "fee_cap_step cm (bd, fees) =
     (let current_revenue = total_revenue cm;
          max_fee_cap = current_revenue * 0.15
      in if fees > max_fee_cap \<and> current_revenue > 0 then
           (bd \<lparr> fee_cap_applied :=
                    Some \<lparr> calculated_fees = fees,
                           capped_fees = max_fee_cap,
                           cap_percentage = 0.15 \<rparr> \<rparr>,
            max_fee_cap)
         else (bd, fees))"

text \<open>The three summing blocks, before the cap.\<close>

definition fee_components ::
  "improvements \<Rightarrow> standardized_metrics \<Rightarrow> rat \<Rightarrow> fee_breakdown \<times> rat" where
  "fee_components imps cm fee_rate =
     aov_bonus_step imps cm
       (conversion_bonus_step imps cm
          (revenue_fee_step imps fee_rate (breakdown_empty, 0.0)))"

text \<open>
  \<^verbatim>\<open>_calculate_tiered_fees(improvements, targets, current_metrics, fee_rate)\<close>;
  the source never reads \<^verbatim>\<open>targets\<close>.
\<close>

definition calculate_tiered_fees ::
  "improvements \<Rightarrow> performance_targets \<Rightarrow> standardized_metrics \<Rightarrow> rat \<Rightarrow> fee_calculation" where
  "calculate_tiered_fees imps targets cm fee_rate =
     (case fee_cap_step cm (fee_components imps cm fee_rate) of
        (bd, fees) \<Rightarrow>
          \<lparr> total_fees = py_round fees 2,
            breakdown = bd,
            fee_qualifying = (fees > 0) \<rparr>)"

subsection \<open>The funnel store\<close>

text \<open>
  \<^verbatim>\<open>SalesFunnel\<close>, \<^verbatim>\<open>db\<close> and the subscription service are imported by the
  module and defined elsewhere. The store is a map from funnel id to the funnel's
  columns that the service reads or writes, and the subscription lookup is a parameter.
  The \<^verbatim>\<open>automation_rules\<close> column holds JSON text. It is empty; or a JSON
  object (represented by the two keys the service uses; what \<^verbatim>\<open>json.dumps\<close>
  writes, \<^verbatim>\<open>json.loads\<close> reads back); or a JSON value that is not an object,
  which \<^verbatim>\<open>json.loads\<close> accepts and on which the next statement of the service
  raises; or text on which \<^verbatim>\<open>json.loads\<close> itself raises, kept with the
  exception's message. \<^verbatim>\<open>datetime.utcnow().isoformat()\<close> is the parameter
  \<open>now\<close>. Both operations run inside \<^verbatim>\<open>try ... except Exception\<close>, which
  turns an exception into a failure result carrying \<^verbatim>\<open>str(e)\<close>; logging is left
  out, and a failure of the database itself is not represented.
\<close>

record roi_baseline_data =
  rb_platform :: string
  rb_calculation_date :: string
  rb_period_days :: int
  rb_baseline_metrics :: standardized_metrics
  rb_raw_metrics :: raw_metrics
  rb_raw_baseline_data :: raw_metrics
  rb_performance_targets :: performance_targets
  rb_fee_calculation_ready :: bool

record performance_data =
  pd_calculation_date :: string
  pd_baseline_metrics :: standardized_metrics
  pd_current_metrics :: standardized_metrics
  pd_improvements :: improvements
  pd_fee_calculation :: fee_calculation
  pd_fee_rate_applied :: rat
  pd_plan_name :: string

record rules =
  roi_baseline :: "roi_baseline_data option"
  latest_performance :: "performance_data option"

text \<open>
  The Python type of a JSON value that is not an object, as \<^verbatim>\<open>json.loads\<close>
  returns it, and the name of that type.
\<close>

datatype json_kind = JsonList | JsonNull | JsonString | JsonInt | JsonFloat | JsonBool

definition type_name :: "json_kind \<Rightarrow> string" where
  "type_name k =
     (case k of
        JsonList \<Rightarrow> ''list''
      | JsonNull \<Rightarrow> ''NoneType''
      | JsonString \<Rightarrow> ''str''
      | JsonInt \<Rightarrow> ''int''
      | JsonFloat \<Rightarrow> ''float''
      | JsonBool \<Rightarrow> ''bool'')"

datatype rules_column = NoRules | RulesJson rules | OtherJson json_kind | Malformed string

text \<open>
  \<^verbatim>\<open>create_funnel_from_template\<close> in
  \<^verbatim>\<open>src/sales_funnel_vertical_templates.py\<close> stores
  \<^verbatim>\<open>json.dumps(template['automation_triggers'])\<close> in the column, and every
  template's \<^verbatim>\<open>automation_triggers\<close> is a list of strings: a funnel created from a
  template holds a JSON list.
\<close>

definition template_automation_rules :: rules_column where
  "template_automation_rules = OtherJson JsonList"

record funnel =
  user_id :: nat
  automation_rules :: rules_column
  total_investment :: rat
  generated_revenue :: rat
  calculated_roi :: rat

type_synonym store = "int \<rightharpoonup> funnel"

text \<open>
  \<^verbatim>\<open>json.loads(funnel.automation_rules) if funnel.automation_rules else {}\<close>:
  the value bound to the local \<^verbatim>\<open>automation_rules\<close> is a dictionary or a value
  of another type; \<open>Inl\<close> is the exception of \<^verbatim>\<open>json.loads\<close>.
\<close>

datatype loaded_rules = RulesDict rules | NotADict json_kind

definition load_rules :: "rules_column \<Rightarrow> string + loaded_rules" where
  "load_rules col =
     (case col of
        NoRules \<Rightarrow> Inr (RulesDict \<lparr> roi_baseline = None, latest_performance = None \<rparr>)
      | RulesJson r \<Rightarrow> Inr (RulesDict r)
      | OtherJson k \<Rightarrow> Inr (NotADict k)
      | Malformed msg \<Rightarrow> Inl msg)"

text \<open>
  The text of the exception that \<^verbatim>\<open>automation_rules.get('roi_baseline')\<close> raises
  on a value that is not a dictionary (an \<^verbatim>\<open>AttributeError\<close>), and of the one
  that \<^verbatim>\<open>automation_rules['roi_baseline'] = roi_baseline\<close> raises on it (a
  \<^verbatim>\<open>TypeError\<close>). Python writes the type and attribute names between single
  quotes.
\<close>

definition quoted :: "string \<Rightarrow> string" where
  "quoted s = CHR 0x27 # s @ [CHR 0x27]"

definition rules_get_error :: "json_kind \<Rightarrow> string" where
  "rules_get_error k =
     quoted (type_name k) @ '' object has no attribute '' @ quoted ''get''"

definition rules_setitem_error :: "json_kind \<Rightarrow> string" where
  "rules_setitem_error k =
     (case k of
        JsonList \<Rightarrow> ''list indices must be integers or slices, not str''
      | _ \<Rightarrow> quoted (type_name k) @ '' object does not support item assignment'')"

text \<open>The payload dictionaries of the two operations.\<close>

record platform_data =
  platform :: "string option"
  metrics :: "raw_metrics option"
  baseline_data :: "raw_metrics option"
  period_days :: "int option"

record baseline_summary =
  bs_funnel_id :: int
  bs_platform :: string
  bs_baseline_metrics :: standardized_metrics
  bs_performance_targets :: performance_targets
  bs_baseline_revenue :: rat
  bs_baseline_conversion_rate :: rat

record fee_summary =
  fs_funnel_id :: int
  fs_baseline_revenue :: rat
  fs_current_revenue :: rat
  fs_revenue_improvement :: rat
  fs_total_fees :: rat
  fs_fee_breakdown :: fee_breakdown
  fs_fee_rate :: rat
  fs_qualifying_improvements :: improvements

text \<open>
  Every operation returns a dictionary with a \<^verbatim>\<open>success\<close> flag:
  \<^verbatim>\<open>{'success': False, 'error': msg}\<close> or \<^verbatim>\<open>{'success': True, ...}\<close>.
\<close>

datatype 'a result = Failure string | Success 'a

definition success :: "'a result \<Rightarrow> bool" where
  "success r = (case r of Failure _ \<Rightarrow> False | Success _ \<Rightarrow> True)"

definition error :: "'a result \<Rightarrow> string option" where
  "error r = (case r of Failure msg \<Rightarrow> Some msg | Success _ \<Rightarrow> None)"

text \<open>\<^verbatim>\<open>calculate_baseline_metrics(funnel_id, platform_data)\<close>\<close>

definition calculate_baseline_metrics ::
  "string \<Rightarrow> store \<Rightarrow> int \<Rightarrow> platform_data \<Rightarrow> baseline_summary result \<times> store" where
  "calculate_baseline_metrics now db funnel_id pdata =
     (case db funnel_id of
        None \<Rightarrow> (Failure ''Funnel not found'', db)
      | Some fnl \<Rightarrow>
          (let pf = (case platform pdata of None \<Rightarrow> ''unknown'' | Some p \<Rightarrow> p);
               ms = (case metrics pdata of None \<Rightarrow> Map.empty | Some m \<Rightarrow> m);
               bdata = (case baseline_data pdata of None \<Rightarrow> Map.empty | Some m \<Rightarrow> m);
               days = (case period_days pdata of None \<Rightarrow> 30 | Some d \<Rightarrow> d);
               standardized_baseline = standardize_baseline_metrics pf ms bdata;
               rb = \<lparr> rb_platform = pf,
                      rb_calculation_date = now,
                      rb_period_days = days,
                      rb_baseline_metrics = standardized_baseline,
                      rb_raw_metrics = ms,
                      rb_raw_baseline_data = bdata,
                      rb_performance_targets = calculate_performance_targets standardized_baseline,
                      rb_fee_calculation_ready = True \<rparr>
           in case load_rules (automation_rules fnl) of
                Inl msg \<Rightarrow> (Failure msg, db)
              | Inr (NotADict k) \<Rightarrow> (Failure (rules_setitem_error k), db)
              | Inr (RulesDict rs) \<Rightarrow>
                  (Success
                     \<lparr> bs_funnel_id = funnel_id,
                       bs_platform = pf,
                       bs_baseline_metrics = standardized_baseline,
                       bs_performance_targets = rb_performance_targets rb,
                       bs_baseline_revenue = total_revenue standardized_baseline,
                       bs_baseline_conversion_rate = conversion_rate standardized_baseline \<rparr>,
                   db(funnel_id \<mapsto>
                        fnl \<lparr> automation_rules := RulesJson (rs \<lparr> roi_baseline := Some rb \<rparr>),
                              total_investment := operational_costs standardized_baseline,
                              generated_revenue := total_revenue standardized_baseline,
                              calculated_roi := roi_percentage standardized_baseline \<rparr>))))"

text \<open>
  The value of \<^verbatim>\<open>get_user_subscription\<close>: an object with a
  \<^verbatim>\<open>plan_name\<close> attribute, or a dictionary whose \<^verbatim>\<open>'plan'\<close> entry (when
  present) is a dictionary that may hold \<^verbatim>\<open>'plan_name'\<close>.
\<close>

datatype subscription = SubscriptionObject string | SubscriptionDict "string option option"

text \<open>\<^verbatim>\<open>str.lower()\<close>, on ASCII text\<close>

definition lower_char :: "char \<Rightarrow> char" where
  "lower_char c =
     (let n = (of_char c :: nat) in if 65 \<le> n \<and> n \<le> 90 then char_of (n + 32) else c)"

definition lower :: "string \<Rightarrow> string" where
  "lower s = map lower_char s"

definition plan_name_of :: "subscription option \<Rightarrow> string" where
  "plan_name_of sub =
     (case sub of
        None \<Rightarrow> ''starter''
      | Some (SubscriptionObject name) \<Rightarrow> lower name
      | Some (SubscriptionDict None) \<Rightarrow> ''starter''
      | Some (SubscriptionDict (Some plan)) \<Rightarrow>
          lower (case plan of None \<Rightarrow> ''starter'' | Some name \<Rightarrow> name))"

text \<open>\<^verbatim>\<open>calculate_performance_fees(funnel_id, current_period_data)\<close>\<close>

definition calculate_performance_fees ::
  "(nat \<Rightarrow> subscription option) \<Rightarrow> string \<Rightarrow> store \<Rightarrow> int \<Rightarrow> platform_data
     \<Rightarrow> fee_summary result \<times> store" where
  "calculate_performance_fees get_user_subscription now db funnel_id pdata =
     (case db funnel_id of
        None \<Rightarrow> (Failure ''Funnel not found'', db)
      | Some fnl \<Rightarrow>
          (case load_rules (automation_rules fnl) of
             Inl msg \<Rightarrow> (Failure msg, db)
           | Inr (NotADict k) \<Rightarrow> (Failure (rules_get_error k), db)
           | Inr (RulesDict rs) \<Rightarrow>
               (case roi_baseline rs of
                  None \<Rightarrow>
                    (Failure ''No ROI baseline found. Please import baseline data first.'', db)
                | Some rb \<Rightarrow>
                    (let plan_name = plan_name_of (get_user_subscription (user_id fnl));
                         fee_rate = dget performance_fee_rates plan_name 0.05;
                         baseline_metrics = rb_baseline_metrics rb;
                         targets = rb_performance_targets rb;
                         current_metrics =
                           standardize_baseline_metrics
                             (case platform pdata of None \<Rightarrow> rb_platform rb | Some p \<Rightarrow> p)
                             (case metrics pdata of None \<Rightarrow> Map.empty | Some m \<Rightarrow> m)
                             (case baseline_data pdata of None \<Rightarrow> Map.empty | Some m \<Rightarrow> m);
                         imps = calculate_improvements baseline_metrics current_metrics;
                         fee_calc = calculate_tiered_fees imps targets current_metrics fee_rate;
                         pd = \<lparr> pd_calculation_date = now,
                                pd_baseline_metrics = baseline_metrics,
                                pd_current_metrics = current_metrics,
                                pd_improvements = imps,
                                pd_fee_calculation = fee_calc,
                                pd_fee_rate_applied = fee_rate,
                                pd_plan_name = plan_name \<rparr>
                     in (Success
                           \<lparr> fs_funnel_id = funnel_id,
                             fs_baseline_revenue = total_revenue baseline_metrics,
                             fs_current_revenue = total_revenue current_metrics,
                             fs_revenue_improvement = entry_percentage (imps ''revenue''),
                             fs_total_fees = total_fees fee_calc,
                             fs_fee_breakdown = breakdown fee_calc,
                             fs_fee_rate = fee_rate,
                             fs_qualifying_improvements = imps \<rparr>,
                         db(funnel_id \<mapsto>
                              fnl \<lparr> generated_revenue := total_revenue current_metrics,
                                    calculated_roi := roi_percentage current_metrics,
                                    automation_rules :=
                                      RulesJson (rs \<lparr> latest_performance := Some pd \<rparr>) \<rparr>))))))"

subsection \<open>Reading a fee calculation\<close>

text \<open>
  The amount each component of a breakdown contributes to the total: the amount stored
  under its key, and nothing when the key is absent.
\<close>

definition revenue_fee_amount :: "fee_breakdown \<Rightarrow> rat" where
  "revenue_fee_amount bd = (case revenue_fee bd of None \<Rightarrow> 0 | Some p \<Rightarrow> fee_amount p)"

definition conversion_bonus_amount :: "fee_breakdown \<Rightarrow> rat" where
  "conversion_bonus_amount bd =
     (case conversion_bonus bd of None \<Rightarrow> 0 | Some p \<Rightarrow> cb_bonus_amount p)"

definition aov_bonus_amount :: "fee_breakdown \<Rightarrow> rat" where
  "aov_bonus_amount bd = (case aov_bonus bd of None \<Rightarrow> 0 | Some p \<Rightarrow> ab_bonus_amount p)"

definition components_sum :: "fee_breakdown \<Rightarrow> rat" where
  "components_sum bd = revenue_fee_amount bd + conversion_bonus_amount bd + aov_bonus_amount bd"

text \<open>No field of a standardized metrics record is negative.\<close>

definition no_negative_fields :: "standardized_metrics \<Rightarrow> bool" where
  "no_negative_fields m =
     (0 \<le> total_revenue m \<and> 0 \<le> total_transactions m \<and> 0 \<le> conversion_rate m
      \<and> 0 \<le> average_order_value m \<and> 0 \<le> total_leads m \<and> 0 \<le> cost_per_lead m
      \<and> 0 \<le> customer_acquisition_cost m \<and> 0 \<le> lifetime_value m
      \<and> 0 \<le> roi_percentage m \<and> 0 \<le> operational_costs m)"

text \<open>No value stored in a raw dictionary is negative.\<close>

definition no_negative_values :: "raw_metrics \<Rightarrow> bool" where
  "no_negative_values d = (\<forall>k v. d k = Some v \<longrightarrow> 0 \<le> v)"

section \<open>Properties\<close>

subsection \<open>The standardization mapper\<close>

lemma standardize_unrecognised:
  assumes "pf \<noteq> ''shopify''" and "pf \<noteq> ''hubspot''" and "pf \<noteq> ''google_analytics''"
  shows "standardize_baseline_metrics pf ms bdata = standardized_init"
  using assms
  by (simp add: standardize_baseline_metrics_def apply_platform_mapping_def standardized_init_def)

text \<open>
  Claim C9. A platform identifier other than \<^verbatim>\<open>shopify\<close>, \<^verbatim>\<open>hubspot\<close> and
  \<^verbatim>\<open>google_analytics\<close> makes the mapper return the record whose ten fields are all
  zero, whatever the two raw dictionaries hold. The mapper is a total function here
  because no statement on that path of the source can raise: neither raw dictionary is
  read, and the two guards compare the initial zeros.
\<close>

theorem unrecognised_platform_all_zero:
  assumes "pf \<notin> {''shopify'', ''hubspot'', ''google_analytics''}"
  shows "standardize_baseline_metrics pf ms bdata =
           \<lparr> total_revenue = 0, total_transactions = 0, conversion_rate = 0,
             average_order_value = 0, total_leads = 0, cost_per_lead = 0,
             customer_acquisition_cost = 0, lifetime_value = 0, roi_percentage = 0,
             operational_costs = 0 \<rparr>"
  using assms standardize_unrecognised [of pf ms bdata]
  by (simp add: standardized_init_def)

theorem unrecognised_platform_all_zero_witness:
  "''unknown'' \<notin> {''shopify'', ''hubspot'', ''google_analytics''}
   \<and> standardize_baseline_metrics ''unknown'' [''total_revenue'' \<mapsto> 500] [''conversion_rate'' \<mapsto> 3] =
       \<lparr> total_revenue = 0, total_transactions = 0, conversion_rate = 0,
         average_order_value = 0, total_leads = 0, cost_per_lead = 0,
         customer_acquisition_cost = 0, lifetime_value = 0, roi_percentage = 0,
         operational_costs = 0 \<rparr>"
proof -
  have h: "''unknown'' \<notin> {''shopify'', ''hubspot'', ''google_analytics''}"
    by simp
  show ?thesis
    using h unrecognised_platform_all_zero [OF h] by blast
qed

text \<open>The mapper's last two blocks leave these three fields as the platform branch set them.\<close>

lemma standardize_fields:
  "customer_acquisition_cost (standardize_baseline_metrics pf ms bdata) =
     customer_acquisition_cost (apply_platform_mapping pf ms bdata standardized_init)"
  "total_revenue (standardize_baseline_metrics pf ms bdata) =
     total_revenue (apply_platform_mapping pf ms bdata standardized_init)"
  "total_transactions (standardize_baseline_metrics pf ms bdata) =
     total_transactions (apply_platform_mapping pf ms bdata standardized_init)"
  by (simp_all add: standardize_baseline_metrics_def Let_def)

lemma cac_shopify:
  "customer_acquisition_cost (apply_platform_mapping ''shopify'' ms bdata s) =
     estimate_cac (total_revenue (apply_platform_mapping ''shopify'' ms bdata s))
       (total_transactions (apply_platform_mapping ''shopify'' ms bdata s))"
  by (simp add: apply_platform_mapping_def)

lemma cac_hubspot:
  "customer_acquisition_cost (apply_platform_mapping ''hubspot'' ms bdata s) =
     estimate_cac (total_revenue (apply_platform_mapping ''hubspot'' ms bdata s))
       (total_transactions (apply_platform_mapping ''hubspot'' ms bdata s))"
  by (simp add: apply_platform_mapping_def)

lemma cac_google_analytics:
  "customer_acquisition_cost (apply_platform_mapping ''google_analytics'' ms bdata s) =
     estimate_cac (total_revenue (apply_platform_mapping ''google_analytics'' ms bdata s))
       (total_transactions (apply_platform_mapping ''google_analytics'' ms bdata s))"
  by (simp add: apply_platform_mapping_def Let_def)

lemma estimate_cac_cases:
  "(1 \<le> customers \<longrightarrow> estimate_cac revenue customers = 0.20 * revenue / max 1 customers)
   \<and> estimate_cac revenue 0 = 0"
  by (simp add: estimate_cac_def max_def)

text \<open>
  Claim C8, as stated, fails: with zero transactions the source returns 0 from the
  guard \<^verbatim>\<open>if customers == 0\<close>, where \<open>0.20 \<times> revenue / max(1, 0)\<close> is
  \<open>0.20 \<times> revenue\<close>. For revenue 100 and no orders the mapper stores 0 and the
  claimed estimate is 20.
\<close>

theorem estimate_cac_zero_counterexample:
  "estimate_cac 100 0 \<noteq> 0.20 * 100 / max 1 0
   \<and> customer_acquisition_cost
        (standardize_baseline_metrics ''shopify''
           [''total_revenue'' \<mapsto> 100, ''total_orders'' \<mapsto> 0] Map.empty)
       \<noteq> 0.20 * 100 / max 1 0"
  by (simp add: estimate_cac_def standardize_baseline_metrics_def apply_platform_mapping_def
      standardized_init_def dget_def)

text \<open>
  Claim C8, amended. On each recognised platform the mapper stores
  \<^verbatim>\<open>_estimate_cac\<close> of the revenue and the transaction count. For a count of at
  least one the estimate is \<open>0.20 \<times> revenue / max(1, count)\<close>; for a count of zero it
  is 0.
\<close>

theorem estimate_cac_amended:
  "(1 \<le> customers \<longrightarrow> estimate_cac revenue customers = 0.20 * revenue / max 1 customers)
   \<and> estimate_cac revenue 0 = 0
   \<and> (pf \<in> {''shopify'', ''hubspot'', ''google_analytics''} \<longrightarrow>
        customer_acquisition_cost (standardize_baseline_metrics pf ms bdata) =
          estimate_cac (total_revenue (standardize_baseline_metrics pf ms bdata))
            (total_transactions (standardize_baseline_metrics pf ms bdata)))"
  using estimate_cac_cases [of customers revenue]
    cac_shopify [of ms bdata standardized_init]
    cac_hubspot [of ms bdata standardized_init]
    cac_google_analytics [of ms bdata standardized_init]
  unfolding standardize_fields by blast

theorem estimate_cac_amended_witness:
  "(1::rat) \<le> 4
   \<and> estimate_cac 100 4 = 0.20 * 100 / max 1 4
   \<and> estimate_cac 100 0 = 0
   \<and> ''hubspot'' \<in> {''shopify'', ''hubspot'', ''google_analytics''}
   \<and> customer_acquisition_cost
        (standardize_baseline_metrics ''hubspot''
           [''total_revenue'' \<mapsto> 100, ''closed_won_deals'' \<mapsto> 4] Map.empty) =
       estimate_cac
         (total_revenue
            (standardize_baseline_metrics ''hubspot''
               [''total_revenue'' \<mapsto> 100, ''closed_won_deals'' \<mapsto> 4] Map.empty))
         (total_transactions
            (standardize_baseline_metrics ''hubspot''
               [''total_revenue'' \<mapsto> 100, ''closed_won_deals'' \<mapsto> 4] Map.empty))"
proof -
  have h: "(1::rat) \<le> 4"
    by simp
  have p: "''hubspot'' \<in> {''shopify'', ''hubspot'', ''google_analytics''}"
    by simp
  show ?thesis
    using h p
      estimate_cac_amended [of 4 100 "''hubspot''"
        "[''total_revenue'' \<mapsto> 100, ''closed_won_deals'' \<mapsto> 4]" Map.empty]
    by blast
qed

lemma dget_nonneg: "no_negative_values d \<Longrightarrow> 0 \<le> dget d key 0"
  by (simp add: no_negative_values_def dget_def split: option.splits)

lemma estimate_cac_nonneg: "0 \<le> r \<Longrightarrow> 0 \<le> c \<Longrightarrow> 0 \<le> estimate_cac r c"
  by (simp add: estimate_cac_def)

lemma estimate_cost_per_lead_nonneg: "0 \<le> l \<Longrightarrow> 0 \<le> estimate_cost_per_lead l"
  by (simp add: estimate_cost_per_lead_def)

lemma mapping_shopify:
  assumes "no_negative_values ms" and "no_negative_values bdata"
  shows "no_negative_fields (apply_platform_mapping ''shopify'' ms bdata standardized_init)"
    and "operational_costs (apply_platform_mapping ''shopify'' ms bdata standardized_init)
          \<le> total_revenue (apply_platform_mapping ''shopify'' ms bdata standardized_init)"
  using assms
  by (simp_all add: apply_platform_mapping_def standardized_init_def no_negative_fields_def
      dget_nonneg estimate_cac_nonneg)

lemma mapping_hubspot:
  assumes "no_negative_values ms" and "no_negative_values bdata"
  shows "no_negative_fields (apply_platform_mapping ''hubspot'' ms bdata standardized_init)"
    and "operational_costs (apply_platform_mapping ''hubspot'' ms bdata standardized_init)
          \<le> total_revenue (apply_platform_mapping ''hubspot'' ms bdata standardized_init)"
  using assms
  by (simp_all add: apply_platform_mapping_def standardized_init_def no_negative_fields_def
      dget_nonneg estimate_cac_nonneg estimate_cost_per_lead_nonneg)

lemma mapping_google_analytics:
  assumes "no_negative_values ms" and "no_negative_values bdata"
  shows "no_negative_fields
           (apply_platform_mapping ''google_analytics'' ms bdata standardized_init)"
    and "operational_costs (apply_platform_mapping ''google_analytics'' ms bdata standardized_init)
          \<le> total_revenue (apply_platform_mapping ''google_analytics'' ms bdata standardized_init)"
  using assms
  by (simp_all add: apply_platform_mapping_def standardized_init_def no_negative_fields_def
      dget_nonneg estimate_cac_nonneg estimate_cost_per_lead_nonneg Let_def)

lemma mapping_other:
  assumes "pf \<noteq> ''shopify''" and "pf \<noteq> ''hubspot''" and "pf \<noteq> ''google_analytics''"
  shows "apply_platform_mapping pf ms bdata s = s"
  using assms by (simp add: apply_platform_mapping_def)

lemma mapping_nonneg:
  assumes "no_negative_values ms" and "no_negative_values bdata"
  shows "no_negative_fields (apply_platform_mapping pf ms bdata standardized_init)
     \<and> operational_costs (apply_platform_mapping pf ms bdata standardized_init)
          \<le> total_revenue (apply_platform_mapping pf ms bdata standardized_init)"
proof -
  consider "pf = ''shopify''" | "pf = ''hubspot''" | "pf = ''google_analytics''"
    | "pf \<noteq> ''shopify''" "pf \<noteq> ''hubspot''" "pf \<noteq> ''google_analytics''"
    by blast
  then show ?thesis
  proof cases
    case 1
    then show ?thesis using mapping_shopify [OF assms] by simp
  next
    case 2
    then show ?thesis using mapping_hubspot [OF assms] by simp
  next
    case 3
    then show ?thesis using mapping_google_analytics [OF assms] by simp
  next
    case 4
    then show ?thesis
      by (simp add: mapping_other standardized_init_def no_negative_fields_def)
  qed
qed

text \<open>The ROI block and the lifetime-value block keep a record free of negative fields.\<close>

lemma finish_nonneg:
  assumes "no_negative_fields s" and "operational_costs s \<le> total_revenue s"
  shows "no_negative_fields
     (let standardized = s;
          standardized =
            (if operational_costs standardized > 0 then
               standardized
                 \<lparr> roi_percentage :=
                     ((total_revenue standardized - operational_costs standardized)
                        / operational_costs standardized) * 100 \<rparr>
             else standardized);
          standardized =
            (if total_transactions standardized > 0 then
               standardized \<lparr> lifetime_value := average_order_value standardized * 2.5 \<rparr>
             else standardized)
      in standardized)"
  using assms by (simp add: no_negative_fields_def Let_def)

lemma standardize_nonneg:
  assumes "no_negative_values ms" and "no_negative_values bdata"
  shows "no_negative_fields (standardize_baseline_metrics pf ms bdata)"
  unfolding standardize_baseline_metrics_def
  using mapping_nonneg [OF assms, of pf] finish_nonneg by (simp add: Let_def)

lemma mapping_roi:
  "roi_percentage (apply_platform_mapping pf ms bdata standardized_init) = 0"
  by (simp add: apply_platform_mapping_def standardized_init_def Let_def)

lemma standardize_costs:
  "operational_costs (standardize_baseline_metrics pf ms bdata) =
     operational_costs (apply_platform_mapping pf ms bdata standardized_init)"
  by (simp add: standardize_baseline_metrics_def Let_def)

lemma standardize_roi:
  "roi_percentage (standardize_baseline_metrics pf ms bdata) =
     (let s = apply_platform_mapping pf ms bdata standardized_init
      in if operational_costs s > 0
         then ((total_revenue s - operational_costs s) / operational_costs s) * 100
         else 0)"
  by (simp add: standardize_baseline_metrics_def Let_def mapping_roi)

lemma standardize_roi_zero:
  "operational_costs (standardize_baseline_metrics pf ms bdata) = 0 \<Longrightarrow>
   roi_percentage (standardize_baseline_metrics pf ms bdata) = 0"
  by (simp add: standardize_costs standardize_roi Let_def)

text \<open>
  Claim C6, as stated, fails: the mapper copies the raw values and clamps nothing. A
  Shopify import whose \<^verbatim>\<open>total_revenue\<close> is \<open>-100\<close> gives a record whose
  \<^verbatim>\<open>total_revenue\<close> is \<open>-100\<close> (and whose \<^verbatim>\<open>operational_costs\<close> is \<open>-30\<close>).
\<close>

theorem negative_field_counterexample:
  "total_revenue
     (standardize_baseline_metrics ''shopify'' [''total_revenue'' \<mapsto> - 100] Map.empty) = - 100
   \<and> \<not> no_negative_fields
         (standardize_baseline_metrics ''shopify'' [''total_revenue'' \<mapsto> - 100] Map.empty)"
  by (simp add: standardize_baseline_metrics_def apply_platform_mapping_def
      standardized_init_def dget_def Let_def no_negative_fields_def)

text \<open>
  Claim C6, amended. For every platform identifier and every pair of raw dictionaries,
  \<^verbatim>\<open>roi_percentage\<close> is 0 whenever \<^verbatim>\<open>operational_costs\<close> is 0; and when no
  value of the two raw dictionaries is negative, no field of the standardized record is
  negative.
\<close>

theorem standardized_metrics_invariant:
  "(operational_costs (standardize_baseline_metrics pf ms bdata) = 0 \<longrightarrow>
      roi_percentage (standardize_baseline_metrics pf ms bdata) = 0)
   \<and> (no_negative_values ms \<and> no_negative_values bdata \<longrightarrow>
        no_negative_fields (standardize_baseline_metrics pf ms bdata))"
  using standardize_roi_zero [of pf ms bdata] standardize_nonneg [of ms bdata pf]
  by blast

theorem standardized_metrics_invariant_witness:
  "operational_costs
     (standardize_baseline_metrics ''hubspot''
        [''total_revenue'' \<mapsto> 1000, ''closed_won_deals'' \<mapsto> 4] Map.empty) = 0
   \<and> no_negative_values [''total_revenue'' \<mapsto> 1000, ''closed_won_deals'' \<mapsto> 4]
   \<and> no_negative_values Map.empty
   \<and> roi_percentage
        (standardize_baseline_metrics ''hubspot''
           [''total_revenue'' \<mapsto> 1000, ''closed_won_deals'' \<mapsto> 4] Map.empty) = 0
   \<and> no_negative_fields
        (standardize_baseline_metrics ''hubspot''
           [''total_revenue'' \<mapsto> 1000, ''closed_won_deals'' \<mapsto> 4] Map.empty)"
proof -
  have h1: "operational_costs
     (standardize_baseline_metrics ''hubspot''
        [''total_revenue'' \<mapsto> 1000, ''closed_won_deals'' \<mapsto> 4] Map.empty) = 0"
    by (simp add: standardize_costs apply_platform_mapping_def standardized_init_def)
  have h2: "no_negative_values [''total_revenue'' \<mapsto> 1000, ''closed_won_deals'' \<mapsto> 4]"
    by (simp add: no_negative_values_def)
  have h3: "no_negative_values Map.empty"
    by (simp add: no_negative_values_def)
  show ?thesis
    using h1 h2 h3
      standardized_metrics_invariant [of "''hubspot''"
        "[''total_revenue'' \<mapsto> 1000, ''closed_won_deals'' \<mapsto> 4]" Map.empty]
    by blast
qed

subsection \<open>The improvement comparator\<close>

lemma improvements_loop_other:
  "k \<notin> set ks \<Longrightarrow> improvements_loop ks bm cm imps k = imps k"
  by (induction ks arbitrary: imps) auto

lemma improvements_loop_key:
  "k \<in> set ks \<Longrightarrow>
   improvements_loop ks bm cm imps k =
     Some (improvement_entry (metric_get bm k 0) (metric_get cm k 0))"
proof (induction ks arbitrary: imps)
  case Nil
  then show ?case by simp
next
  case (Cons a ks)
  show ?case
  proof (cases "k \<in> set ks")
    case True
    then show ?thesis using Cons.IH by simp
  next
    case False
    with Cons.prems have "a = k" by simp
    with False show ?thesis by (simp add: improvements_loop_other)
  qed
qed

lemma calculate_improvements_key:
  "k \<in> set key_metrics \<Longrightarrow>
   calculate_improvements bm cm k =
     Some (improvement_entry (metric_get bm k 0) (metric_get cm k 0))"
  by (simp add: calculate_improvements_def improvements_loop_key)

lemma calculate_improvements_total_revenue:
  "calculate_improvements bm cm ''total_revenue'' =
     Some (improvement_entry (total_revenue bm) (total_revenue cm))"
  by (simp add: calculate_improvements_key key_metrics_def metric_get_def)

lemma calculate_improvements_conversion_rate:
  "calculate_improvements bm cm ''conversion_rate'' =
     Some (improvement_entry (conversion_rate bm) (conversion_rate cm))"
  by (simp add: calculate_improvements_key key_metrics_def metric_get_def)

lemma calculate_improvements_average_order_value:
  "calculate_improvements bm cm ''average_order_value'' =
     Some (improvement_entry (average_order_value bm) (average_order_value cm))"
  by (simp add: calculate_improvements_key key_metrics_def metric_get_def)

text \<open>
  Claim C5. For each of the four tracked metrics, a baseline value of zero makes the
  comparator report percentage 0 and \<open>improved = False\<close>, whatever the current value is
  (the entry keeps the current value as its absolute change).
\<close>

theorem zero_baseline_no_improvement:
  assumes "metric \<in> set key_metrics" and "metric_get bm metric 0 = 0"
  shows "calculate_improvements bm cm metric =
           Some \<lparr> baseline = 0,
                  current = metric_get cm metric 0,
                  absolute_change = metric_get cm metric 0,
                  percentage = 0,
                  improved = False \<rparr>"
  using assms by (simp add: calculate_improvements_key improvement_entry_def)

theorem zero_baseline_no_improvement_witness:
  "''conversion_rate'' \<in> set key_metrics
   \<and> metric_get standardized_init ''conversion_rate'' 0 = 0
   \<and> calculate_improvements standardized_init
        (standardized_init \<lparr> conversion_rate := 7 \<rparr>) ''conversion_rate'' =
       Some \<lparr> baseline = 0, current = 7, absolute_change = 7, percentage = 0, improved = False \<rparr>"
proof -
  have h1: "''conversion_rate'' \<in> set key_metrics"
    by (simp add: key_metrics_def)
  have h2: "metric_get standardized_init ''conversion_rate'' 0 = 0"
    by (simp add: metric_get_def standardized_init_def)
  have g: "metric_get (standardized_init \<lparr> conversion_rate := 7 \<rparr>) ''conversion_rate'' 0 = 7"
    by (simp add: metric_get_def)
  show ?thesis
    using h1 h2
      zero_baseline_no_improvement [OF h1 h2, of "standardized_init \<lparr> conversion_rate := 7 \<rparr>"]
    unfolding g by blast
qed

subsection \<open>The tiered fee calculator\<close>

lemma entry_of_improvement_entry:
  "entry_improved (Some (improvement_entry b c)) = (0 < b \<and> 5 < (c - b) / b * 100)"
  "entry_percentage (Some (improvement_entry b c)) = (if 0 < b then (c - b) / b * 100 else 0)"
  "entry_absolute_change (Some (improvement_entry b c)) = (if 0 < b then c - b else c)"
  by (simp_all add: entry_improved_def entry_percentage_def entry_absolute_change_def
      improvement_entry_def minimum_improvement_threshold_def Let_def)

lemma fee_cap_step_keeps:
  "revenue_fee (fst (fee_cap_step cm s)) = revenue_fee (fst s)"
  "conversion_bonus (fst (fee_cap_step cm s)) = conversion_bonus (fst s)"
  "aov_bonus (fst (fee_cap_step cm s)) = aov_bonus (fst s)"
  by (cases s; simp add: Let_def)+

lemma fee_cap_step_total:
  "snd (fee_cap_step cm s) =
     (if snd s > total_revenue cm * 0.15 \<and> total_revenue cm > 0
      then total_revenue cm * 0.15 else snd s)"
  by (cases s) (simp add: Let_def)

lemma fee_cap_step_cap:
  "fee_cap_applied (fst (fee_cap_step cm s)) =
     (if snd s > total_revenue cm * 0.15 \<and> total_revenue cm > 0
      then Some \<lparr> calculated_fees = snd s,
                  capped_fees = total_revenue cm * 0.15,
                  cap_percentage = 0.15 \<rparr>
      else fee_cap_applied (fst s))"
  by (cases s) (simp add: Let_def)

lemma breakdown_eq:
  "breakdown (calculate_tiered_fees imps targets cm fee_rate) =
     fst (fee_cap_step cm (fee_components imps cm fee_rate))"
  by (simp add: calculate_tiered_fees_def split: prod.splits)

lemma total_fees_eq:
  "total_fees (calculate_tiered_fees imps targets cm fee_rate) =
     py_round (snd (fee_cap_step cm (fee_components imps cm fee_rate))) 2"
  by (simp add: calculate_tiered_fees_def split: prod.splits)

lemma revenue_fee_components:
  "revenue_fee (fst (fee_components imps cm fee_rate)) =
     (if entry_improved (imps ''total_revenue'')
      then Some \<lparr> incremental_revenue = max 0 (entry_absolute_change (imps ''total_revenue'')),
                  rf_fee_rate = fee_rate,
                  fee_amount = max 0 (entry_absolute_change (imps ''total_revenue'')) * fee_rate,
                  rf_improvement_percentage = entry_percentage (imps ''total_revenue'') \<rparr>
      else None)"
  by (simp add: fee_components_def breakdown_empty_def Let_def)

lemma conversion_bonus_components:
  "conversion_bonus (fst (fee_components imps cm fee_rate)) =
     (if entry_improved (imps ''conversion_rate'')
         \<and> 15 < entry_percentage (imps ''conversion_rate'')
      then Some \<lparr> cb_improvement_percentage = entry_percentage (imps ''conversion_rate''),
                  cb_bonus_rate =
                    min 0.02 ((entry_percentage (imps ''conversion_rate'') - 15) * 0.001),
                  cb_bonus_amount =
                    total_revenue cm
                      * min 0.02 ((entry_percentage (imps ''conversion_rate'') - 15) * 0.001),
                  applied_to_revenue = total_revenue cm \<rparr>
      else None)"
  by (simp add: fee_components_def breakdown_empty_def Let_def)

lemma aov_bonus_components:
  "aov_bonus (fst (fee_components imps cm fee_rate)) =
     (if entry_improved (imps ''average_order_value'')
         \<and> 10 < entry_percentage (imps ''average_order_value'')
      then Some \<lparr> ab_improvement_percentage = entry_percentage (imps ''average_order_value''),
                  ab_bonus_rate =
                    min 0.01 ((entry_percentage (imps ''average_order_value'') - 10) * 0.0005),
                  ab_bonus_amount =
                    total_revenue cm
                      * min 0.01 ((entry_percentage (imps ''average_order_value'') - 10) * 0.0005) \<rparr>
      else None)"
  by (simp add: fee_components_def breakdown_empty_def Let_def)

lemma fee_cap_components:
  "fee_cap_applied (fst (fee_components imps cm fee_rate)) = None"
  by (simp add: fee_components_def breakdown_empty_def Let_def)

lemma sum_components:
  "snd (fee_components imps cm fee_rate) = components_sum (fst (fee_components imps cm fee_rate))"
  by (simp add: fee_components_def breakdown_empty_def Let_def components_sum_def
      revenue_fee_amount_def conversion_bonus_amount_def aov_bonus_amount_def)

lemma revenue_fee_eq:
  "revenue_fee (breakdown (calculate_tiered_fees imps targets cm fee_rate)) =
     revenue_fee (fst (fee_components imps cm fee_rate))"
  by (simp only: breakdown_eq fee_cap_step_keeps)

lemma conversion_bonus_eq:
  "conversion_bonus (breakdown (calculate_tiered_fees imps targets cm fee_rate)) =
     conversion_bonus (fst (fee_components imps cm fee_rate))"
  by (simp only: breakdown_eq fee_cap_step_keeps)

lemma aov_bonus_eq:
  "aov_bonus (breakdown (calculate_tiered_fees imps targets cm fee_rate)) =
     aov_bonus (fst (fee_components imps cm fee_rate))"
  by (simp only: breakdown_eq fee_cap_step_keeps)

text \<open>
  Claim C1, as stated, fails. The percentage that the bonus test reads is the one the
  comparator stores, the relative change \<open>(current - baseline) / baseline \<times> 100\<close>. For
  a baseline conversion rate of 2.0 and a current one of 2.5 it is 25, which exceeds 15,
  so the conversion bonus is applied (rate 0.01, amount 10 on a revenue of 1000) although
  the absolute improvement is 0.5 points.
\<close>

theorem conversion_bonus_counterexample:
  "conversion_bonus
     (breakdown
        (calculate_tiered_fees
           (calculate_improvements
              (standardized_init \<lparr> total_revenue := 1000, conversion_rate := 2.0 \<rparr>)
              (standardized_init \<lparr> total_revenue := 1000, conversion_rate := 2.5 \<rparr>))
           (calculate_performance_targets
              (standardized_init \<lparr> total_revenue := 1000, conversion_rate := 2.0 \<rparr>))
           (standardized_init \<lparr> total_revenue := 1000, conversion_rate := 2.5 \<rparr>)
           0.05))
     = Some \<lparr> cb_improvement_percentage = 25, cb_bonus_rate = 0.01,
              cb_bonus_amount = 10, applied_to_revenue = 1000 \<rparr>
   \<and> \<not> (15 < (2.5 - 2.0 :: rat))"
  by (simp add: conversion_bonus_eq conversion_bonus_components
      calculate_improvements_conversion_rate entry_of_improvement_entry)

text \<open>
  Claim C1, amended. For every improvement map, targets, current metrics and fee rate,
  the conversion bonus is in the breakdown if and only if the conversion-rate entry is
  flagged improved and its percentage exceeds 15. On the comparator's output that
  percentage is the relative change: the bonus is applied if and only if the baseline
  conversion rate is positive and \<open>(current - baseline) / baseline \<times> 100\<close> exceeds 15.
\<close>

theorem conversion_bonus_trigger:
  "(conversion_bonus (breakdown (calculate_tiered_fees imps targets cm fee_rate)) \<noteq> None)
     = (entry_improved (imps ''conversion_rate'')
        \<and> 15 < entry_percentage (imps ''conversion_rate''))
   \<and> (conversion_bonus
         (breakdown (calculate_tiered_fees (calculate_improvements bm cm) targets cm fee_rate))
        \<noteq> None)
     = (0 < conversion_rate bm
        \<and> 15 < (conversion_rate cm - conversion_rate bm) / conversion_rate bm * 100)"
  by (auto simp add: conversion_bonus_eq conversion_bonus_components
      calculate_improvements_conversion_rate entry_of_improvement_entry)

lemma round_half_even_upper: "of_int (round_half_even x) \<le> x + 1 / 2"
proof -
  have "of_int \<lfloor>x\<rfloor> \<le> x" by (rule of_int_floor_le)
  then show ?thesis
    by (simp add: round_half_even_def Let_def) linarith
qed

lemma round_half_even_lower: "x - 1 / 2 \<le> of_int (round_half_even x)"
proof -
  have "x < of_int \<lfloor>x\<rfloor> + 1" by linarith
  then show ?thesis
    by (simp add: round_half_even_def Let_def)
qed

lemma py_round_2_upper: "py_round x 2 \<le> x + 0.005"
proof -
  have "of_int (round_half_even (x * 100)) \<le> x * 100 + 1 / 2"
    by (rule round_half_even_upper)
  then show ?thesis
    by (simp add: py_round_def field_simps)
qed

lemma py_round_2_lower: "x - 0.005 \<le> py_round x 2"
proof -
  have "x * 100 - 1 / 2 \<le> of_int (round_half_even (x * 100))"
    by (rule round_half_even_lower)
  then show ?thesis
    by (simp add: py_round_def field_simps)
qed

lemma components_sum_eq:
  "components_sum (breakdown (calculate_tiered_fees imps targets cm fee_rate)) =
     snd (fee_components imps cm fee_rate)"
  by (simp add: components_sum_def revenue_fee_amount_def conversion_bonus_amount_def
      aov_bonus_amount_def revenue_fee_eq conversion_bonus_eq aov_bonus_eq sum_components)

lemma capped_total:
  assumes "0 < total_revenue cm"
  shows "snd (fee_cap_step cm (fee_components imps cm fee_rate)) =
     min (components_sum (breakdown (calculate_tiered_fees imps targets cm fee_rate)))
         (total_revenue cm * 0.15)"
  using assms by (simp add: fee_cap_step_total components_sum_eq min_def)

lemma cap_record:
  "fee_cap_applied (breakdown (calculate_tiered_fees imps targets cm fee_rate)) =
     (if components_sum (breakdown (calculate_tiered_fees imps targets cm fee_rate))
           > total_revenue cm * 0.15 \<and> total_revenue cm > 0
      then Some \<lparr> calculated_fees =
                    components_sum (breakdown (calculate_tiered_fees imps targets cm fee_rate)),
                  capped_fees = total_revenue cm * 0.15,
                  cap_percentage = 0.15 \<rparr>
      else None)"
  unfolding components_sum_eq
  by (simp only: breakdown_eq fee_cap_step_cap fee_cap_components)

text \<open>Values of the two rounding functions used in the examples below.\<close>

lemma py_round_values:
  "py_round (1 / 8) 2 = 3 / 25" "py_round (11 / 2000) 2 = 1 / 100"
  "py_round 2100 2 = 2100" "py_round 80 2 = 80" "py_round 0 2 = 0"
  by code_simp+

lemma round_half_up_values: "round_half_up (1 / 8) 2 = 13 / 100"
  by code_simp

lemma total_fees_sum:
  "total_fees (calculate_tiered_fees imps targets cm fee_rate) =
     py_round
       (if components_sum (fst (fee_components imps cm fee_rate)) > total_revenue cm * 0.15
           \<and> total_revenue cm > 0
        then total_revenue cm * 0.15
        else components_sum (fst (fee_components imps cm fee_rate))) 2"
  by (simp only: total_fees_eq fee_cap_step_total sum_components)

lemma components_sum_parts:
  "components_sum (fst (fee_components imps cm fee_rate)) =
     (if entry_improved (imps ''total_revenue'')
      then max 0 (entry_absolute_change (imps ''total_revenue'')) * fee_rate else 0)
     + (if entry_improved (imps ''conversion_rate'')
           \<and> 15 < entry_percentage (imps ''conversion_rate'')
        then total_revenue cm
               * min 0.02 ((entry_percentage (imps ''conversion_rate'') - 15) * 0.001)
        else 0)
     + (if entry_improved (imps ''average_order_value'')
           \<and> 10 < entry_percentage (imps ''average_order_value'')
        then total_revenue cm
               * min 0.01 ((entry_percentage (imps ''average_order_value'') - 10) * 0.0005)
        else 0)"
  by (simp add: components_sum_def revenue_fee_amount_def conversion_bonus_amount_def
      aov_bonus_amount_def revenue_fee_components conversion_bonus_components
      aov_bonus_components)

lemma uncapped_total:
  assumes "total_revenue cm \<le> 0"
  shows "snd (fee_cap_step cm (fee_components imps cm fee_rate)) =
     components_sum (breakdown (calculate_tiered_fees imps targets cm fee_rate))"
  using assms by (simp add: fee_cap_step_total components_sum_eq)

text \<open>
  Claim C2, as stated, fails: the cap is applied before the rounding, and the returned
  total is the rounded amount. On the comparator's output for a baseline revenue of
  0.005 and a current revenue of 0.06, at the enterprise rate 0.10, the only component is
  the revenue fee \<open>0.055 \<times> 0.10 = 0.0055\<close>; it is below the cap
  \<open>0.15 \<times> 0.06 = 0.009\<close>, and the returned total is 0.01, above the cap.
\<close>

theorem total_fee_cap_counterexample:
  "total_fees
     (calculate_tiered_fees
        (calculate_improvements
           (standardized_init \<lparr> total_revenue := 0.005 \<rparr>)
           (standardized_init \<lparr> total_revenue := 0.06 \<rparr>))
        (calculate_performance_targets (standardized_init \<lparr> total_revenue := 0.005 \<rparr>))
        (standardized_init \<lparr> total_revenue := 0.06 \<rparr>)
        0.10) = 0.01
   \<and> 0.15 * total_revenue (standardized_init \<lparr> total_revenue := 0.06 \<rparr>) = 0.009
   \<and> \<not> total_fees
         (calculate_tiered_fees
            (calculate_improvements
               (standardized_init \<lparr> total_revenue := 0.005 \<rparr>)
               (standardized_init \<lparr> total_revenue := 0.06 \<rparr>))
            (calculate_performance_targets (standardized_init \<lparr> total_revenue := 0.005 \<rparr>))
            (standardized_init \<lparr> total_revenue := 0.06 \<rparr>)
            0.10)
        \<le> 0.15 * total_revenue (standardized_init \<lparr> total_revenue := 0.06 \<rparr>)"
proof -
  have a: "total_fees
     (calculate_tiered_fees
        (calculate_improvements
           (standardized_init \<lparr> total_revenue := 0.005 \<rparr>)
           (standardized_init \<lparr> total_revenue := 0.06 \<rparr>))
        (calculate_performance_targets (standardized_init \<lparr> total_revenue := 0.005 \<rparr>))
        (standardized_init \<lparr> total_revenue := 0.06 \<rparr>)
        0.10) = 0.01"
    by (simp add: total_fees_sum components_sum_parts calculate_improvements_total_revenue
        calculate_improvements_conversion_rate calculate_improvements_average_order_value
        entry_of_improvement_entry standardized_init_def py_round_values)
  show ?thesis
    unfolding a by simp
qed

text \<open>
  Claim C2, amended. For every improvement map, targets, current metrics and fee rate,
  the breakdown records the sum of the components and the cap
  \<open>0.15 \<times> current revenue\<close> under \<^verbatim>\<open>fee_cap_applied\<close> exactly when the
  current revenue is positive and the sum exceeds the cap. When the current revenue is
  positive, the total before rounding is the smaller of the sum and the cap, so it never
  exceeds the cap, and the returned total is that amount rounded to two decimals, so it
  exceeds the cap by at most 0.005. When the current revenue is zero or negative no cap
  is applied: \<^verbatim>\<open>fee_cap_applied\<close> is absent and the returned total is the rounded
  sum of the components.
\<close>

theorem total_fee_cap_invariant:
  "fee_cap_applied (breakdown (calculate_tiered_fees imps targets cm fee_rate)) =
     (if 0 < total_revenue cm
         \<and> 0.15 * total_revenue cm
             < components_sum (breakdown (calculate_tiered_fees imps targets cm fee_rate))
      then Some \<lparr> calculated_fees =
                    components_sum (breakdown (calculate_tiered_fees imps targets cm fee_rate)),
                  capped_fees = 0.15 * total_revenue cm,
                  cap_percentage = 0.15 \<rparr>
      else None)
   \<and> (0 < total_revenue cm \<longrightarrow>
        total_fees (calculate_tiered_fees imps targets cm fee_rate) =
          py_round
            (min (components_sum (breakdown (calculate_tiered_fees imps targets cm fee_rate)))
                 (0.15 * total_revenue cm)) 2
        \<and> min (components_sum (breakdown (calculate_tiered_fees imps targets cm fee_rate)))
               (0.15 * total_revenue cm) \<le> 0.15 * total_revenue cm
        \<and> total_fees (calculate_tiered_fees imps targets cm fee_rate)
             \<le> 0.15 * total_revenue cm + 0.005)
   \<and> (total_revenue cm \<le> 0 \<longrightarrow>
        fee_cap_applied (breakdown (calculate_tiered_fees imps targets cm fee_rate)) = None
        \<and> total_fees (calculate_tiered_fees imps targets cm fee_rate) =
            py_round
              (components_sum (breakdown (calculate_tiered_fees imps targets cm fee_rate))) 2)"
proof -
  let ?r = "calculate_tiered_fees imps targets cm fee_rate"
  let ?pre = "components_sum (breakdown ?r)"
  let ?cap = "0.15 * total_revenue cm"
  have c: "total_revenue cm * 0.15 = ?cap" by simp
  have rec: "fee_cap_applied (breakdown ?r) =
     (if 0 < total_revenue cm \<and> ?cap < ?pre
      then Some \<lparr> calculated_fees = ?pre, capped_fees = ?cap, cap_percentage = 0.15 \<rparr>
      else None)"
    using cap_record [of imps targets cm fee_rate] by (simp only: c) auto
  have pos: "total_fees ?r = py_round (min ?pre ?cap) 2
      \<and> min ?pre ?cap \<le> ?cap \<and> total_fees ?r \<le> ?cap + 0.005"
    if h: "0 < total_revenue cm"
  proof -
    have t: "total_fees ?r = py_round (min ?pre ?cap) 2"
      using capped_total [OF h, of imps fee_rate targets] by (simp only: total_fees_eq c)
    have m: "min ?pre ?cap \<le> ?cap" by simp
    have u: "py_round (min ?pre ?cap) 2 \<le> min ?pre ?cap + 0.005"
      by (rule py_round_2_upper)
    have b: "total_fees ?r \<le> ?cap + 0.005"
      using t m u by linarith
    show ?thesis using t m b by blast
  qed
  have nonpos: "fee_cap_applied (breakdown ?r) = None \<and> total_fees ?r = py_round ?pre 2"
    if h: "total_revenue cm \<le> 0"
  proof -
    have "fee_cap_applied (breakdown ?r) = None"
      using h rec by simp
    moreover have "total_fees ?r = py_round ?pre 2"
      using uncapped_total [OF h, of imps fee_rate targets] by (simp only: total_fees_eq)
    ultimately show ?thesis by blast
  qed
  show ?thesis using rec pos nonpos by blast
qed

theorem total_fee_cap_invariant_witness:
  "(let bm = standardized_init \<lparr> total_revenue := 1000, conversion_rate := 2 \<rparr>;
        cm1 = standardized_init \<lparr> total_revenue := 1500, conversion_rate := 3 \<rparr>;
        cm0 = standardized_init \<lparr> total_revenue := 0, conversion_rate := 3 \<rparr>;
        targets = calculate_performance_targets bm;
        fee_rate = dget performance_fee_rates ''enterprise'' 0.05;
        r1 = calculate_tiered_fees (calculate_improvements bm cm1) targets cm1 fee_rate;
        r0 = calculate_tiered_fees (calculate_improvements bm cm0) targets cm0 fee_rate
    in 0 < total_revenue cm1
       \<and> total_fees r1 =
           py_round (min (components_sum (breakdown r1)) (0.15 * total_revenue cm1)) 2
       \<and> total_fees r1 \<le> 0.15 * total_revenue cm1 + 0.005
       \<and> total_fees r1 = 80
       \<and> total_revenue cm0 \<le> 0
       \<and> fee_cap_applied (breakdown r0) = None
       \<and> total_fees r0 = py_round (components_sum (breakdown r0)) 2
       \<and> total_fees r0 = 0)"
proof -
  let ?bm = "standardized_init \<lparr> total_revenue := 1000, conversion_rate := 2 \<rparr>"
  let ?cm1 = "standardized_init \<lparr> total_revenue := 1500, conversion_rate := 3 \<rparr>"
  let ?cm0 = "standardized_init \<lparr> total_revenue := 0, conversion_rate := 3 \<rparr>"
  let ?targets = "calculate_performance_targets ?bm"
  let ?rate = "dget performance_fee_rates ''enterprise'' 0.05"
  have h1: "0 < total_revenue ?cm1" by simp
  have h0: "total_revenue ?cm0 \<le> 0" by simp
  have rate: "?rate = 1 / 10"
    by (simp add: dget_def performance_fee_rates_def)
  have v1: "total_fees (calculate_tiered_fees (calculate_improvements ?bm ?cm1) ?targets ?cm1 ?rate)
      = 80"
    unfolding rate
    by (simp add: total_fees_sum components_sum_parts calculate_improvements_total_revenue
        calculate_improvements_conversion_rate calculate_improvements_average_order_value
        entry_of_improvement_entry standardized_init_def py_round_values)
  have v0: "total_fees (calculate_tiered_fees (calculate_improvements ?bm ?cm0) ?targets ?cm0 ?rate)
      = 0"
    unfolding rate
    by (simp add: total_fees_sum components_sum_parts calculate_improvements_total_revenue
        calculate_improvements_conversion_rate calculate_improvements_average_order_value
        entry_of_improvement_entry standardized_init_def py_round_values)
  show ?thesis
    unfolding Let_def
    using h1 h0 v1 v0
      total_fee_cap_invariant [of "calculate_improvements ?bm ?cm1" ?targets ?cm1 ?rate]
      total_fee_cap_invariant [of "calculate_improvements ?bm ?cm0" ?targets ?cm0 ?rate]
    by blast
qed

text \<open>
  Claim C3. With a baseline revenue of 100000, a current revenue of 130000 and a fee
  rate of 0.07, and the conversion-rate and average-order-value percentages of the
  comparator at or below 15 and 10, the revenue improvement is 30 percent and counts as
  improved, the breakdown holds only the revenue fee of \<open>30000 \<times> 0.07 = 2100\<close>, no
  cap is recorded, and the total is exactly 2100, which is below
  \<open>0.15 \<times> 130000 = 19500\<close>.
\<close>

theorem worked_example:
  assumes "total_revenue bm = 100000" and "total_revenue cm = 130000"
    and "entry_percentage (calculate_improvements bm cm ''conversion_rate'') \<le> 15"
    and "entry_percentage (calculate_improvements bm cm ''average_order_value'') \<le> 10"
  shows "entry_percentage (calculate_improvements bm cm ''total_revenue'') = 30
   \<and> entry_improved (calculate_improvements bm cm ''total_revenue'')
   \<and> breakdown (calculate_tiered_fees (calculate_improvements bm cm) targets cm 0.07) =
       \<lparr> revenue_fee =
           Some \<lparr> incremental_revenue = 30000, rf_fee_rate = 0.07, fee_amount = 2100,
                  rf_improvement_percentage = 30 \<rparr>,
         conversion_bonus = None, aov_bonus = None, fee_cap_applied = None \<rparr>
   \<and> total_fees (calculate_tiered_fees (calculate_improvements bm cm) targets cm 0.07) = 2100
   \<and> (2100 :: rat) < 0.15 * 130000"
proof -
  let ?imps = "calculate_improvements bm cm"
  let ?r = "calculate_tiered_fees ?imps targets cm 0.07"
  have p: "entry_percentage (?imps ''total_revenue'') = 30"
    and i: "entry_improved (?imps ''total_revenue'')"
    and c: "entry_absolute_change (?imps ''total_revenue'') = 30000"
    using assms(1,2)
    by (simp_all add: calculate_improvements_total_revenue entry_of_improvement_entry)
  have rf: "revenue_fee (breakdown ?r) =
      Some \<lparr> incremental_revenue = 30000, rf_fee_rate = 0.07, fee_amount = 2100,
             rf_improvement_percentage = 30 \<rparr>"
    by (simp add: revenue_fee_eq revenue_fee_components p i c)
  have cb: "conversion_bonus (breakdown ?r) = None"
    using assms(3) by (simp add: conversion_bonus_eq conversion_bonus_components)
  have ab: "aov_bonus (breakdown ?r) = None"
    using assms(4) by (simp add: aov_bonus_eq aov_bonus_components)
  have s: "components_sum (fst (fee_components ?imps cm 0.07)) = 2100"
    using assms(3,4) by (simp add: components_sum_parts p i c)
  have cap: "fee_cap_applied (breakdown ?r) = None"
  proof -
    have "components_sum (breakdown ?r) = 2100"
      by (simp only: components_sum_eq sum_components s)
    then show ?thesis
      using assms(2) by (simp add: cap_record)
  qed
  have t: "total_fees ?r = 2100"
    using assms(2) s by (simp add: total_fees_sum py_round_values)
  have bd: "breakdown ?r =
       \<lparr> revenue_fee =
           Some \<lparr> incremental_revenue = 30000, rf_fee_rate = 0.07, fee_amount = 2100,
                  rf_improvement_percentage = 30 \<rparr>,
         conversion_bonus = None, aov_bonus = None, fee_cap_applied = None \<rparr>"
    using rf cb ab cap by (cases "breakdown ?r") simp
  show ?thesis
    using p i bd t by simp
qed

theorem worked_example_witness:
  "total_revenue (standardized_init \<lparr> total_revenue := 100000 \<rparr>) = 100000
   \<and> total_revenue (standardized_init \<lparr> total_revenue := 130000 \<rparr>) = 130000
   \<and> entry_percentage
        (calculate_improvements (standardized_init \<lparr> total_revenue := 100000 \<rparr>)
           (standardized_init \<lparr> total_revenue := 130000 \<rparr>) ''conversion_rate'') \<le> 15
   \<and> entry_percentage
        (calculate_improvements (standardized_init \<lparr> total_revenue := 100000 \<rparr>)
           (standardized_init \<lparr> total_revenue := 130000 \<rparr>) ''average_order_value'') \<le> 10
   \<and> total_fees
        (calculate_tiered_fees
           (calculate_improvements (standardized_init \<lparr> total_revenue := 100000 \<rparr>)
              (standardized_init \<lparr> total_revenue := 130000 \<rparr>))
           (calculate_performance_targets (standardized_init \<lparr> total_revenue := 100000 \<rparr>))
           (standardized_init \<lparr> total_revenue := 130000 \<rparr>) 0.07) = 2100"
proof -
  let ?bm = "standardized_init \<lparr> total_revenue := 100000 \<rparr>"
  let ?cm = "standardized_init \<lparr> total_revenue := 130000 \<rparr>"
  have h1: "total_revenue ?bm = 100000" by simp
  have h2: "total_revenue ?cm = 130000" by simp
  have h3: "entry_percentage (calculate_improvements ?bm ?cm ''conversion_rate'') \<le> 15"
    by (simp add: calculate_improvements_conversion_rate entry_of_improvement_entry
        standardized_init_def)
  have h4: "entry_percentage (calculate_improvements ?bm ?cm ''average_order_value'') \<le> 10"
    by (simp add: calculate_improvements_average_order_value entry_of_improvement_entry
        standardized_init_def)
  show ?thesis
    using h1 h2 h3 h4
      worked_example [OF h1 h2 h3 h4, of "calculate_performance_targets ?bm"]
    by blast
qed

lemma plan_rate_nonneg: "0 \<le> dget performance_fee_rates plan 0.05"
  by (simp add: dget_def performance_fee_rates_def)

lemma revenue_fee_amount_pipeline:
  "revenue_fee_amount
     (breakdown (calculate_tiered_fees (calculate_improvements bm cm) targets cm fee_rate)) =
   (if 0 < total_revenue bm
       \<and> 5 < (total_revenue cm - total_revenue bm) / total_revenue bm * 100
    then max 0 (total_revenue cm - total_revenue bm) * fee_rate else 0)"
  by (simp add: revenue_fee_amount_def revenue_fee_eq revenue_fee_components
      calculate_improvements_total_revenue entry_of_improvement_entry)

lemma pct_mono:
  fixes b x y :: rat
  assumes "0 < b" and "x \<le> y"
  shows "(x - b) / b * 100 \<le> (y - b) / b * 100"
  using assms by (simp add: divide_right_mono)

lemma pct_pos:
  fixes b x :: rat
  assumes "0 < b" and "5 < (x - b) / b * 100"
  shows "b < x"
proof (rule ccontr)
  assume "\<not> b < x"
  then have "x - b \<le> 0" by simp
  then have "(x - b) / b \<le> 0" using assms(1) by (simp add: divide_nonpos_pos)
  then have "(x - b) / b * 100 \<le> 0" by (rule mult_nonpos_nonneg) simp
  then show False using assms(2) by linarith
qed

text \<open>
  Claim C4. Fix a positive baseline revenue and a fee rate that is not negative (every
  rate of \<^verbatim>\<open>performance_fee_rates\<close> and the default 0.05 are positive, see
  \<open>plan_rate_nonneg\<close>). The revenue fee component of the fee calculation on the
  comparator's output, read as 0 when the breakdown has no revenue fee, does not
  decrease when \<open>current_revenue - baseline_revenue\<close> grows; it is 0 whenever the current
  revenue is at most the baseline revenue; and when the revenue improvement exceeds 5
  percent it is \<open>max(0, current - baseline) \<times> fee_rate\<close>.
\<close>

theorem revenue_fee_monotone:
  assumes "0 < total_revenue bm" and "0 \<le> fee_rate"
  shows "(total_revenue cm1 - total_revenue bm \<le> total_revenue cm2 - total_revenue bm \<longrightarrow>
          revenue_fee_amount
            (breakdown (calculate_tiered_fees (calculate_improvements bm cm1) targets1 cm1 fee_rate))
          \<le> revenue_fee_amount
            (breakdown (calculate_tiered_fees (calculate_improvements bm cm2) targets2 cm2 fee_rate)))
   \<and> (total_revenue cm1 \<le> total_revenue bm \<longrightarrow>
          revenue_fee_amount
            (breakdown (calculate_tiered_fees (calculate_improvements bm cm1) targets1 cm1 fee_rate))
          = 0)
   \<and> (5 < (total_revenue cm1 - total_revenue bm) / total_revenue bm * 100 \<longrightarrow>
          revenue_fee_amount
            (breakdown (calculate_tiered_fees (calculate_improvements bm cm1) targets1 cm1 fee_rate))
          = max 0 (total_revenue cm1 - total_revenue bm) * fee_rate)"
proof -
  let ?b = "total_revenue bm" and ?x = "total_revenue cm1" and ?y = "total_revenue cm2"
  let ?f = "\<lambda>c. if 5 < (c - ?b) / ?b * 100 then max 0 (c - ?b) * fee_rate else 0"
  have mono: "?f ?x \<le> ?f ?y" if le: "?x \<le> ?y"
  proof (cases "5 < (?x - ?b) / ?b * 100")
    case True
    with pct_mono [OF assms(1) le] have "5 < (?y - ?b) / ?b * 100" by linarith
    moreover have "max 0 (?x - ?b) * fee_rate \<le> max 0 (?y - ?b) * fee_rate"
      using le assms(2) by (intro mult_right_mono) auto
    ultimately show ?thesis using True by simp
  next
    case False
    have "0 \<le> max 0 (?y - ?b) * fee_rate"
      using assms(2) by simp
    then show ?thesis using False by simp
  qed
  have zero: "?f ?x = 0" if "?x \<le> ?b"
    using that pct_pos [OF assms(1), of ?x] by auto
  show ?thesis
    using mono zero assms(1) by (simp add: revenue_fee_amount_pipeline)
qed

theorem revenue_fee_monotone_witness:
  "(let bm = standardized_init \<lparr> total_revenue := 100 \<rparr>;
        cm0 = standardized_init \<lparr> total_revenue := 90 \<rparr>;
        cm1 = standardized_init \<lparr> total_revenue := 110 \<rparr>;
        cm2 = standardized_init \<lparr> total_revenue := 120 \<rparr>;
        targets = calculate_performance_targets bm;
        fee_rate = dget performance_fee_rates ''professional'' 0.05
    in 0 < total_revenue bm \<and> 0 \<le> fee_rate
       \<and> total_revenue cm1 - total_revenue bm \<le> total_revenue cm2 - total_revenue bm
       \<and> revenue_fee_amount
            (breakdown (calculate_tiered_fees (calculate_improvements bm cm1) targets cm1 fee_rate))
          \<le> revenue_fee_amount
            (breakdown (calculate_tiered_fees (calculate_improvements bm cm2) targets cm2 fee_rate))
       \<and> 5 < (total_revenue cm1 - total_revenue bm) / total_revenue bm * 100
       \<and> revenue_fee_amount
            (breakdown (calculate_tiered_fees (calculate_improvements bm cm1) targets cm1 fee_rate))
          = max 0 (total_revenue cm1 - total_revenue bm) * fee_rate
       \<and> total_revenue cm0 \<le> total_revenue bm
       \<and> revenue_fee_amount
            (breakdown (calculate_tiered_fees (calculate_improvements bm cm0) targets cm0 fee_rate))
          = 0)"
proof -
  let ?bm = "standardized_init \<lparr> total_revenue := 100 \<rparr>"
  let ?cm0 = "standardized_init \<lparr> total_revenue := 90 \<rparr>"
  let ?cm1 = "standardized_init \<lparr> total_revenue := 110 \<rparr>"
  let ?cm2 = "standardized_init \<lparr> total_revenue := 120 \<rparr>"
  let ?rate = "dget performance_fee_rates ''professional'' 0.05"
  have h1: "0 < total_revenue ?bm" by simp
  have h2: "0 \<le> ?rate" by (rule plan_rate_nonneg)
  have h3: "total_revenue ?cm1 - total_revenue ?bm \<le> total_revenue ?cm2 - total_revenue ?bm"
    by simp
  have h4: "5 < (total_revenue ?cm1 - total_revenue ?bm) / total_revenue ?bm * 100"
    by simp
  have h5: "total_revenue ?cm0 \<le> total_revenue ?bm"
    by simp
  show ?thesis
    unfolding Let_def
    using h1 h2 h3 h4 h5
      revenue_fee_monotone [OF h1 h2, of ?cm1 ?cm2 "calculate_performance_targets ?bm"
        "calculate_performance_targets ?bm"]
      revenue_fee_monotone [OF h1 h2, of ?cm0 ?cm2 "calculate_performance_targets ?bm"
        "calculate_performance_targets ?bm"]
    by blast
qed

text \<open>
  Claim C7 against the code. The source returns \<^verbatim>\<open>round(total_fees, 2)\<close>, which
  sends an amount exactly half way to the even neighbour. With a baseline revenue of 10,
  a current revenue of 11.25 and the enterprise rate 0.10 the only component is the
  revenue fee \<open>1.25 \<times> 0.10 = 0.125\<close>, no cap applies, and the returned total is
  0.12, where half-up rounding of 0.125 gives 0.13.
\<close>

theorem half_even_rounding_at_tie:
  "components_sum
     (breakdown
        (calculate_tiered_fees
           (calculate_improvements (standardized_init \<lparr> total_revenue := 10 \<rparr>)
              (standardized_init \<lparr> total_revenue := 11.25 \<rparr>))
           (calculate_performance_targets (standardized_init \<lparr> total_revenue := 10 \<rparr>))
           (standardized_init \<lparr> total_revenue := 11.25 \<rparr>) 0.10)) = 0.125
   \<and> fee_cap_applied
       (breakdown
          (calculate_tiered_fees
             (calculate_improvements (standardized_init \<lparr> total_revenue := 10 \<rparr>)
                (standardized_init \<lparr> total_revenue := 11.25 \<rparr>))
             (calculate_performance_targets (standardized_init \<lparr> total_revenue := 10 \<rparr>))
             (standardized_init \<lparr> total_revenue := 11.25 \<rparr>) 0.10)) = None
   \<and> total_fees
       (calculate_tiered_fees
          (calculate_improvements (standardized_init \<lparr> total_revenue := 10 \<rparr>)
             (standardized_init \<lparr> total_revenue := 11.25 \<rparr>))
          (calculate_performance_targets (standardized_init \<lparr> total_revenue := 10 \<rparr>))
          (standardized_init \<lparr> total_revenue := 11.25 \<rparr>) 0.10) = 0.12
   \<and> round_half_up 0.125 2 = 0.13"
proof -
  let ?bm = "standardized_init \<lparr> total_revenue := 10 \<rparr>"
  let ?cm = "standardized_init \<lparr> total_revenue := 11.25 \<rparr>"
  let ?imps = "calculate_improvements ?bm ?cm"
  let ?r = "calculate_tiered_fees ?imps (calculate_performance_targets ?bm) ?cm 0.10"
  have s: "components_sum (fst (fee_components ?imps ?cm 0.10)) = 0.125"
    by (simp add: components_sum_parts calculate_improvements_total_revenue
        calculate_improvements_conversion_rate calculate_improvements_average_order_value
        entry_of_improvement_entry standardized_init_def)
  have a: "components_sum (breakdown ?r) = 0.125"
    by (simp only: components_sum_eq sum_components s)
  have c: "fee_cap_applied (breakdown ?r) = None"
    using a by (simp add: cap_record)
  have t: "total_fees ?r = 0.12"
    by (simp only: total_fees_sum s) (simp add: py_round_values)
  have u: "round_half_up 0.125 2 = 0.13"
    by (simp add: round_half_up_values)
  show ?thesis
    using a c t u by blast
qed

subsection \<open>The two store operations\<close>

lemma failure_flags: "success (Failure msg) = False" "error (Failure msg) = Some msg"
  by (simp_all add: success_def error_def)

lemma baseline_metrics_missing_funnel:
  "db funnel_id = None \<Longrightarrow>
   calculate_baseline_metrics now db funnel_id pdata = (Failure ''Funnel not found'', db)"
  by (simp add: calculate_baseline_metrics_def)

lemma performance_fees_missing_funnel:
  "db funnel_id = None \<Longrightarrow>
   calculate_performance_fees get_user_subscription now db funnel_id pdata =
     (Failure ''Funnel not found'', db)"
  by (simp add: calculate_performance_fees_def)

lemma performance_fees_missing_baseline:
  "db funnel_id = Some fnl \<Longrightarrow> load_rules (automation_rules fnl) = Inr (RulesDict rs) \<Longrightarrow>
   roi_baseline rs = None \<Longrightarrow>
   calculate_performance_fees get_user_subscription now db funnel_id pdata =
     (Failure ''No ROI baseline found. Please import baseline data first.'', db)"
  by (simp add: calculate_performance_fees_def)

lemma performance_fees_not_a_dict:
  "db funnel_id = Some fnl \<Longrightarrow> automation_rules fnl = OtherJson k \<Longrightarrow>
   calculate_performance_fees get_user_subscription now db funnel_id pdata =
     (Failure (rules_get_error k), db)"
  by (simp add: calculate_performance_fees_def load_rules_def)

lemma baseline_metrics_not_a_dict:
  "db funnel_id = Some fnl \<Longrightarrow> automation_rules fnl = OtherJson k \<Longrightarrow>
   calculate_baseline_metrics now db funnel_id pdata = (Failure (rules_setitem_error k), db)"
  by (simp add: calculate_baseline_metrics_def load_rules_def Let_def)

lemma performance_fees_malformed_rules:
  "db funnel_id = Some fnl \<Longrightarrow> automation_rules fnl = Malformed msg \<Longrightarrow>
   calculate_performance_fees get_user_subscription now db funnel_id pdata = (Failure msg, db)"
  by (simp add: calculate_performance_fees_def load_rules_def)

lemma performance_fees_without_baseline:
  assumes "db funnel_id = Some fnl"
    and "\<And>rs. automation_rules fnl = RulesJson rs \<Longrightarrow> roi_baseline rs = None"
  shows "success (fst (calculate_performance_fees get_user_subscription now db funnel_id pdata))
           = False
     \<and> snd (calculate_performance_fees get_user_subscription now db funnel_id pdata) = db"
proof (cases "automation_rules fnl")
  case NoRules
  then show ?thesis
    using assms(1)
    by (simp add: performance_fees_missing_baseline load_rules_def failure_flags)
next
  case (RulesJson rs)
  then show ?thesis
    using assms
    by (simp add: performance_fees_missing_baseline load_rules_def failure_flags)
next
  case (OtherJson k)
  then show ?thesis
    using assms(1) by (simp add: performance_fees_not_a_dict failure_flags)
next
  case (Malformed msg)
  then show ?thesis
    using assms(1) by (simp add: performance_fees_malformed_rules failure_flags)
qed

text \<open>
  Claim C10 against the code. The first half holds (\<open>baseline_metrics_missing_funnel\<close>,
  \<open>performance_fees_missing_funnel\<close>), and so does the second half for a funnel whose
  column is empty or a JSON object without \<^verbatim>\<open>roi_baseline\<close>
  (\<open>performance_fees_missing_baseline\<close>); every existing funnel without a baseline
  gets \<open>success = False\<close> and an unchanged store
  (\<open>performance_fees_without_baseline\<close>). But a funnel created from a template
  exists, has no stored ROI baseline, and holds a JSON list in its column: there
  \<^verbatim>\<open>automation_rules.get('roi_baseline')\<close> raises before the guard
  \<^verbatim>\<open>if not roi_baseline\<close> is reached, and the performance-fee calculation returns
  the text of that exception where the claim has the missing-baseline message.
\<close>

theorem template_funnel_fee_error:
  "(let fnl = \<lparr> user_id = 7, automation_rules = template_automation_rules,
                 total_investment = 0, generated_revenue = 0, calculated_roi = 0 \<rparr>;
        db = [1 \<mapsto> fnl];
        pdata = \<lparr> platform = Some ''shopify'', metrics = None, baseline_data = None,
                   period_days = None \<rparr>;
        r = calculate_performance_fees (\<lambda>u. None) ''2024-01-01T00:00:00'' db 1 pdata
    in db 1 = Some fnl
       \<and> success (fst r) = False
       \<and> error (fst r) = Some (quoted ''list'' @ '' object has no attribute '' @ quoted ''get'')
       \<and> error (fst r) \<noteq> Some ''No ROI baseline found. Please import baseline data first.''
       \<and> snd r = db)"
  by (simp add: Let_def performance_fees_not_a_dict template_automation_rules_def failure_flags
      rules_get_error_def quoted_def type_name_def)

end
